theory Spec2Isabelle
  imports Main "HOL-Library.Sublist"
begin

section \<open>JavaScript values\<close>

text \<open>
  Model replies, scenario files and action plans are what \<^verbatim>\<open>JSON.parse\<close> returns. A number is
  identified by its canonical decimal text (what \<^verbatim>\<open>String(x)\<close> yields), so that two numbers are
  \<^verbatim>\<open>===\<close> exactly when their texts are equal. An object is the list of its own properties in the
  order \<^verbatim>\<open>for ... in\<close> enumerates them, with distinct keys. The value \<^verbatim>\<open>undefined\<close> is
  \<open>None\<close> of type \<open>json option\<close>. Properties inherited from \<^verbatim>\<open>Object.prototype\<close> are not modelled.
\<close>

datatype json =
    JNull
  | JBool bool
  | JNum string
  | JStr string
  | JArr "json list"
  | JObj "(string \<times> json) list"

datatype exn =
    TypeError
  | RemoteError
  | PageError
  | FatalError

text \<open>The decimal digit for a number below ten.\<close>

definition digit :: "nat \<Rightarrow> char" where
  "digit n = ''0123456789'' ! n"

fun string_of_nat :: "nat \<Rightarrow> string" where
  "string_of_nat n =
     (if n < 10 then [digit n] else string_of_nat (n div 10) @ [digit (n mod 10)])"

declare string_of_nat.simps [simp del]

definition string_of_int :: "int \<Rightarrow> string" where
  "string_of_int i = (if i < 0 then CHR ''-'' # string_of_nat (nat (- i)) else string_of_nat (nat i))"

fun intercalate :: "string \<Rightarrow> string list \<Rightarrow> string" where
  "intercalate sep [] = []"
| "intercalate sep [x] = x"
| "intercalate sep (x # y # ys) = x @ sep @ intercalate sep (y # ys)"

text \<open>\<^verbatim>\<open>String(v)\<close>, the coercion of template literals, property keys and \<^verbatim>\<open>includes\<close>.\<close>

fun toString :: "json \<Rightarrow> string" where
  "toString JNull = ''null''"
| "toString (JBool b) = (if b then ''true'' else ''false'')"
| "toString (JNum s) = s"
| "toString (JStr s) = s"
| "toString (JArr xs) = intercalate '','' (map (\<lambda>x. if x = JNull then [] else toString x) xs)"
| "toString (JObj kvs) = ''[object Object]''"

definition toStringU :: "json option \<Rightarrow> string" where
  "toStringU v = (case v of None \<Rightarrow> ''undefined'' | Some j \<Rightarrow> toString j)"

text \<open>\<^verbatim>\<open>s.includes(t)\<close>: \<open>t\<close> occurs in \<open>s\<close> as a contiguous run of characters.\<close>

fun strIncludes :: "string \<Rightarrow> string \<Rightarrow> bool" where
  "strIncludes [] t = (t = [])"
| "strIncludes (c # s) t = (prefix t (c # s) \<or> strIncludes s t)"

text \<open>Truthiness of a possibly absent string: \<^verbatim>\<open>null\<close>, \<^verbatim>\<open>undefined\<close> and \<^verbatim>\<open>''\<close> are falsy.\<close>

definition truthy :: "string option \<Rightarrow> bool" where
  "truthy s = (case s of None \<Rightarrow> False | Some t \<Rightarrow> t \<noteq> [])"

text \<open>\<^verbatim>\<open>s || d\<close> for a possibly absent string \<open>s\<close>.\<close>

definition orElse :: "string option \<Rightarrow> string \<Rightarrow> string" where
  "orElse s d = (case s of None \<Rightarrow> d | Some t \<Rightarrow> if t \<noteq> [] then t else d)"

text \<open>
  \<^verbatim>\<open>v[key]\<close>. Reading a property of \<^verbatim>\<open>null\<close> throws; an array or a string has its indices and
  \<^verbatim>\<open>length\<close>; a number or a boolean has no property of its own.
\<close>

definition indexed :: "'a list \<Rightarrow> string \<Rightarrow> 'a option" where
  "indexed xs key =
     (case filter (\<lambda>i. string_of_nat i = key) [0..<length xs] of
        [] \<Rightarrow> None
      | i # _ \<Rightarrow> Some (xs ! i))"

fun getProp :: "json \<Rightarrow> string \<Rightarrow> exn + json option" where
  "getProp JNull key = Inl TypeError"
| "getProp (JObj kvs) key = Inr (map_of kvs key)"
| "getProp (JArr xs) key =
     Inr (if key = ''length'' then Some (JNum (string_of_nat (length xs))) else indexed xs key)"
| "getProp (JStr s) key =
     Inr (if key = ''length'' then Some (JNum (string_of_nat (length s)))
          else map_option (\<lambda>c. JStr [c]) (indexed s key))"
| "getProp (JBool b) key = Inr None"
| "getProp (JNum n) key = Inr None"

text \<open>\<^verbatim>\<open>v.key\<close> for a value known not to be \<^verbatim>\<open>null\<close>.\<close>

definition propOf :: "json \<Rightarrow> string \<Rightarrow> json option" where
  "propOf v key = (case getProp v key of Inl e \<Rightarrow> None | Inr r \<Rightarrow> r)"

text \<open>The keys \<^verbatim>\<open>for (let key in v)\<close> enumerates; none for \<^verbatim>\<open>null\<close> and \<^verbatim>\<open>undefined\<close>.\<close>

fun forInKeys :: "json option \<Rightarrow> string list" where
  "forInKeys (Some (JObj kvs)) = map fst kvs"
| "forInKeys (Some (JArr xs)) = map string_of_nat [0..<length xs]"
| "forInKeys (Some (JStr s)) = map string_of_nat [0..<length s]"
| "forInKeys v = []"

text \<open>
  \<^verbatim>\<open>a === b\<close> where \<open>a\<close> and \<open>b\<close> come from two different \<^verbatim>\<open>JSON.parse\<close> calls: primitives are
  compared by value, and two arrays or objects are never the same object.
\<close>

fun strictEq :: "json option \<Rightarrow> json option \<Rightarrow> bool" where
  "strictEq None None = True"
| "strictEq (Some JNull) (Some JNull) = True"
| "strictEq (Some (JBool a)) (Some (JBool b)) = (a = b)"
| "strictEq (Some (JNum a)) (Some (JNum b)) = (a = b)"
| "strictEq (Some (JStr a)) (Some (JStr b)) = (a = b)"
| "strictEq a b = False"

text \<open>What \<^verbatim>\<open>for (let x of v)\<close> iterates over; a value that is not iterable throws.\<close>

fun iterate :: "json \<Rightarrow> exn + json list" where
  "iterate (JArr xs) = Inr xs"
| "iterate (JStr s) = Inr (map (\<lambda>c. JStr [c]) s)"
| "iterate v = Inl TypeError"


section \<open>Accessibility projector\<close>

text \<open>
  \<^verbatim>\<open>generateScreenReaderOutput\<close> (part\_001 lines 126--181; the same text in server.js and
  part\_000). A node of the snapshot has a role, a name, a description, a heading level, each
  possibly absent, and its children in snapshot order.
\<close>

datatype node =
  Node (node_role: "string option") (node_name: "string option")
       (node_description: "string option") (node_level: "int option")
       (node_children: "node list")

text \<open>\<^verbatim>\<open>'  '.repeat(depth)\<close>\<close>

fun repeat :: "string \<Rightarrow> nat \<Rightarrow> string" where
  "repeat s 0 = []"
| "repeat s (Suc n) = s @ repeat s n"

text \<open>
  \<^verbatim>\<open>c.toUpperCase()\<close> on the letters a to z; every other character is left as it is
  (the roles of an accessibility snapshot are ASCII identifiers).
\<close>

definition toUpperCase :: "char \<Rightarrow> char" where
  "toUpperCase c =
     (if of_char (CHR ''a'') \<le> (of_char c :: nat) \<and> (of_char c :: nat) \<le> of_char (CHR ''z'')
      then char_of (of_char c - (32 :: nat)) else c)"

definition capitalize :: "string \<Rightarrow> string" where
  "capitalize r = (case r of [] \<Rightarrow> [] | c # cs \<Rightarrow> toUpperCase c # cs)"

text \<open>\<^verbatim>\<open>level || 1\<close> inside the template literal.\<close>

definition levelOr1 :: "int option \<Rightarrow> string" where
  "levelOr1 l = (case l of None \<Rightarrow> ''1'' | Some i \<Rightarrow> if i \<noteq> 0 then string_of_int i else ''1'')"

text \<open>The \<^verbatim>\<open>switch (role)\<close>: the phrase of a node whose role is \<open>r\<close>.\<close>

definition phrase :: "string \<Rightarrow> node \<Rightarrow> string" where
  "phrase r n =
     (if r = ''heading'' then
        ''Heading level '' @ levelOr1 (node_level n) @ '', '' @ orElse (node_name n) ''Unnamed heading''
      else if r = ''button'' then ''Button, '' @ orElse (node_name n) ''Unnamed button''
      else if r = ''link'' then ''Link, '' @ orElse (node_name n) ''Unnamed link''
      else if r = ''text'' then orElse (node_name n) (orElse (node_description n) [])
      else if r = ''checkbox'' then ''Checkbox, '' @ orElse (node_name n) ''Unnamed checkbox''
      else if r = ''radio'' then ''Radio button, '' @ orElse (node_name n) ''Unnamed radio button''
      else if r = ''textbox'' then ''Textbox, '' @ orElse (node_name n) ''Unnamed textbox''
      else capitalize r @ '', '' @ orElse (node_name n) ''Unnamed'')"

text \<open>The output built for the node itself, before its children are visited.\<close>

definition ownOutput :: "node \<Rightarrow> nat \<Rightarrow> string" where
  "ownOutput n depth =
     (if truthy (node_role n) then
        repeat ''  '' depth @ phrase (the (node_role n)) n
          @ (if truthy (node_description n) then '', '' @ the (node_description n) else [])
          @ [CHR 0x0A]
      else [])"

fun generateScreenReaderOutput :: "node \<Rightarrow> nat \<Rightarrow> string"
  and childrenOutput :: "node list \<Rightarrow> nat \<Rightarrow> string" where
  "generateScreenReaderOutput (Node r nm d l cs) depth =
     ownOutput (Node r nm d l cs) depth @ childrenOutput cs (Suc depth)"
| "childrenOutput [] depth = []"
| "childrenOutput (c # cs) depth = generateScreenReaderOutput c depth @ childrenOutput cs depth"


text \<open>
  The nodes of a tree in pre-order, each with its depth: a node before its children, the
  children in snapshot order.
\<close>

fun preorder :: "node \<Rightarrow> nat \<Rightarrow> (node \<times> nat) list"
  and preorderList :: "node list \<Rightarrow> nat \<Rightarrow> (node \<times> nat) list" where
  "preorder (Node r nm d l cs) depth = (Node r nm d l cs, depth) # preorderList cs (Suc depth)"
| "preorderList [] depth = []"
| "preorderList (c # cs) depth = preorder c depth @ preorderList cs depth"

text \<open>The line of a node at a depth: the indentation, its phrase, its description, a newline.\<close>

definition lineOf :: "node \<times> nat \<Rightarrow> string" where
  "lineOf p =
     replicate (2 * snd p) (CHR '' '') @ phrase (the (node_role (fst p))) (fst p)
       @ (if truthy (node_description (fst p)) then '', '' @ the (node_description (fst p)) else [])
       @ [CHR 0x0A]"

definition hasRole :: "node \<times> nat \<Rightarrow> bool" where
  "hasRole p = (node_role (fst p) \<noteq> None \<and> node_role (fst p) \<noteq> Some [])"

definition newlines :: "string \<Rightarrow> nat" where
  "newlines s = length (filter (\<lambda>c. c = CHR 0x0A) s)"


section \<open>The world: conversation history, browser and console\<close>

text \<open>
  Everything the drivers do to the outside is recorded in a trace, in the order it happens:
  the requests to the remote model, the calls of the browser driver and the console lines
  (each as its fixed text, without indentation and colour codes, and the values interpolated
  into it). What the outside answers is given by an environment, which sees the trace before
  the call: the remote model and the page may answer differently after every event.
\<close>

record message =
  msg_role :: string
  msg_content :: string

record element =
  textContent :: string
  ariaLabel :: "string option"
  placeholder :: "string option"

text \<open>
  What \<^verbatim>\<open>page.waitForSelector\<close> resolves to. The drivers use it both as an array
  (\<^verbatim>\<open>const [element] = ...\<close>) and as one element handle (\<^verbatim>\<open>inputElement.type(...)\<close>).
\<close>

datatype handle = HNull | HElement element | HArray "element list"

datatype event =
    ChatRequest "message list"
  | Console string "json option list"
  | Goto string
  | Snapshot
  | EvaluateHandle json
  | Click element
  | TypeText element "json option"
  | WaitForSelector "json option"
  | EvaluateChecked element
  | UploadFile element "json option"
  | SelectOption element "json option"

record world =
  messages :: "message list"
  trace :: "event list"

text \<open>
  The environment: the remote chat (\<open>None\<close>: the call fails), \<^verbatim>\<open>JSON.parse\<close> (\<open>None\<close>: it throws
  a syntax error), \<^verbatim>\<open>JSON.stringify\<close>, \<^verbatim>\<open>document.querySelectorAll\<close> applied to the looked-up
  selector, which is absent for a role without a table entry (\<open>None\<close>: the evaluation in the page
  fails), whether a browser primitive returns normally, \<^verbatim>\<open>page.waitForSelector\<close>, the
  \<^verbatim>\<open>checked\<close> property of an element, and \<^verbatim>\<open>page.accessibility.snapshot\<close>.
\<close>

record env =
  chat :: "event list \<Rightarrow> message list \<Rightarrow> message option"
  jsonParse :: "string \<Rightarrow> json option"
  jsonStringify :: "json \<Rightarrow> string"
  querySelectorAll :: "event list \<Rightarrow> string option \<Rightarrow> element list option"
  primitive :: "event list \<Rightarrow> event \<Rightarrow> bool"
  waitForSelector :: "event list \<Rightarrow> json option \<Rightarrow> handle option"
  isChecked :: "event list \<Rightarrow> element \<Rightarrow> bool option"
  snapshot :: "event list \<Rightarrow> node option option"

text \<open>
  A piece of driver code: from a world to its result, a thrown exception (\<open>Inl\<close>) or a value
  (\<open>Inr\<close>), and the world it leaves. What was done before a throw stays done.
\<close>

type_synonym 'a prog = "world \<Rightarrow> (exn + 'a) \<times> world"

definition ret :: "'a \<Rightarrow> 'a prog" where
  "ret x w = (Inr x, w)"

definition throw :: "exn \<Rightarrow> 'a prog" where
  "throw e w = (Inl e, w)"

definition andThen :: "'a prog \<Rightarrow> ('a \<Rightarrow> 'b prog) \<Rightarrow> 'b prog" where
  "andThen m f w = (case m w of (Inl e, w') \<Rightarrow> (Inl e, w') | (Inr x, w') \<Rightarrow> f x w')"

definition tryCatch :: "'a prog \<Rightarrow> (exn \<Rightarrow> 'a prog) \<Rightarrow> 'a prog" where
  "tryCatch m h w = (case m w of (Inl e, w') \<Rightarrow> h e w' | (Inr x, w') \<Rightarrow> (Inr x, w'))"

definition emit :: "event \<Rightarrow> world \<Rightarrow> world" where
  "emit ev w = w\<lparr>trace := trace w @ [ev]\<rparr>"

definition consoleLog :: "string \<Rightarrow> json option list \<Rightarrow> unit prog" where
  "consoleLog line vals w = (Inr (), emit (Console line vals) w)"

text \<open>A call of a browser primitive: recorded, then it returns or throws as the page decides.\<close>

definition call :: "env \<Rightarrow> event \<Rightarrow> unit prog" where
  "call env ev w = (if primitive env (trace w) ev then Inr () else Inl PageError, emit ev w)"


section \<open>Conversation client\<close>

text \<open>\<^verbatim>\<open>class OllamaClient\<close> (part\_001 and server.js, lines 70--103).\<close>

definition clientChat :: "env \<Rightarrow> message prog" where
  "clientChat env w =
     (case chat env (trace w) (messages w) of
        None \<Rightarrow> (Inl RemoteError, emit (ChatRequest (messages w)) w)
      | Some m \<Rightarrow> (Inr m, emit (ChatRequest (messages w)) w))"

definition push :: "message \<Rightarrow> unit prog" where
  "push m w = (Inr (), w\<lparr>messages := messages w @ [m]\<rparr>)"

definition clientSetup :: "env \<Rightarrow> string \<Rightarrow> unit prog" where
  "clientSetup env setupPrompt =
     andThen (\<lambda>w. (Inr (), w\<lparr>messages := []\<rparr>)) (\<lambda>_.
     andThen (push \<lparr>msg_role = ''system'', msg_content = setupPrompt\<rparr>) (\<lambda>_.
     andThen (clientChat env) (\<lambda>_.
     ret ())))"

definition clientSend :: "env \<Rightarrow> string \<Rightarrow> string prog" where
  "clientSend env message =
     andThen (push \<lparr>msg_role = ''user'', msg_content = message\<rparr>) (\<lambda>_.
     andThen (clientChat env) (\<lambda>response.
     andThen (push response) (\<lambda>_.
     ret (msg_content response))))"

text \<open>
  The earliest driver (part\_000, lines 14--24) has the same \<^verbatim>\<open>send\<close>, and a \<^verbatim>\<open>setup\<close> that
  does not empty the history first; it calls it once, on a new client.
\<close>

definition clientSetup0 :: "env \<Rightarrow> string \<Rightarrow> unit prog" where
  "clientSetup0 env setupPrompt =
     andThen (push \<lparr>msg_role = ''system'', msg_content = setupPrompt\<rparr>) (\<lambda>_.
     andThen (clientChat env) (\<lambda>_.
     ret ()))"


section \<open>Action plan parser\<close>

text \<open>
  The first lines of \<^verbatim>\<open>runScenario\<close> (part\_001 lines 197--212, server.js lines 164--179, the
  same text): prime the client, ask for the plan, parse the reply, and on a syntax error ask
  once more and parse that reply. The system prompt is the constant of lines 19--68, of which
  only the first sentence is written out here.
\<close>

definition setupPrompt :: string where
  "setupPrompt = ''You are a visually disabled user who uses a screen reader.''"

definition firstPrompt :: "string \<Rightarrow> string \<Rightarrow> string" where
  "firstPrompt screenReaderOutput instruction =
     ''Here is the screen reader text you hear: '' @ screenReaderOutput @ ''.'' @ [CHR 0x0A]
     @ ''Here is your task: '' @ instruction @ ''.'' @ [CHR 0x0A]
     @ ''Please generate the JSON array of actions you would take on the page to perform the task I gave you.  Do not include any other information in your response.''"

definition correctivePrompt :: "string \<Rightarrow> string \<Rightarrow> string" where
  "correctivePrompt screenReaderOutput instruction =
     ''No, I said not to include any other information in your response.  I only want the JSON array I described in the initial prompt.  Here is the screen reader text you hear: ''
     @ screenReaderOutput @ ''.'' @ [CHR 0x0A]
     @ ''Here is the instruction: '' @ instruction @ ''.'' @ [CHR 0x0A]
     @ ''What action would you take on the page?''"

definition requestPlan :: "env \<Rightarrow> string \<Rightarrow> string \<Rightarrow> json prog" where
  "requestPlan env screenReaderOutput instruction =
     andThen (clientSetup env setupPrompt) (\<lambda>_.
     andThen (clientSend env (firstPrompt screenReaderOutput instruction)) (\<lambda>response.
     case jsonParse env response of
       Some plan \<Rightarrow> ret plan
     | None \<Rightarrow>
         andThen (clientSend env (correctivePrompt screenReaderOutput instruction)) (\<lambda>response2.
         case jsonParse env response2 of
           Some plan \<Rightarrow> ret plan
         | None \<Rightarrow> throw FatalError)))"


section \<open>Element resolver and action executor\<close>

definition roleMap :: "(string \<times> string) list" where
  "roleMap =
     [(''Heading level 1'', ''h1''), (''Heading level 2'', ''h2''), (''Heading level 3'', ''h3''),
      (''Heading level 4'', ''h4''), (''Heading level 5'', ''h5''), (''Heading level 6'', ''h6''),
      (''Button'', ''button''),
      (''Textbox'', ''input[type='text'], input[type='email'], input[type='password'], textarea''),
      (''Link'', ''a'')]"

text \<open>The predicate of \<^verbatim>\<open>find\<close> (part\_001 line 220).\<close>

definition matchesTarget :: "string \<Rightarrow> element \<Rightarrow> bool" where
  "matchesTarget target el =
     (strIncludes (textContent el) target
      \<or> (case ariaLabel el of None \<Rightarrow> False | Some v \<Rightarrow> strIncludes v target)
      \<or> (case placeholder el of None \<Rightarrow> False | Some v \<Rightarrow> strIncludes v target))"

text \<open>
  \<^verbatim>\<open>page.evaluateHandle\<close> with the function of lines 218--222: the first queried element that
  matches, or nothing. The handle is taken to be falsy exactly when \<^verbatim>\<open>find\<close> found nothing, as
  the guard \<^verbatim>\<open>if (!element)\<close> of line 224 expects.
\<close>

definition evaluateHandle :: "env \<Rightarrow> json \<Rightarrow> element option prog" where
  "evaluateHandle env actionElement w =
     (case getProp actionElement ''role'' of
        Inl e \<Rightarrow> (Inl e, emit (EvaluateHandle actionElement) w)
      | Inr role \<Rightarrow>
          (case querySelectorAll env (trace w) (map_of roleMap (toStringU role)) of
             None \<Rightarrow> (Inl PageError, emit (EvaluateHandle actionElement) w)
           | Some els \<Rightarrow>
               (Inr (find (matchesTarget (toStringU (propOf actionElement ''target''))) els),
                emit (EvaluateHandle actionElement) w)))"

text \<open>The \<^verbatim>\<open>try\<close> block of part\_001 lines 230--246.\<close>

definition actOn :: "env \<Rightarrow> json \<Rightarrow> element \<Rightarrow> unit prog" where
  "actOn env actionElement el =
     tryCatch
       (if strictEq (propOf actionElement ''action'') (Some (JStr ''click'')) then
          andThen (consoleLog ''Clicking on element: , ''
                     [propOf actionElement ''role'', propOf actionElement ''target'']) (\<lambda>_.
          call env (Click el))
        else if strictEq (propOf actionElement ''action'') (Some (JStr ''type'')) then
          andThen (consoleLog ''Typing value:  into element: , ''
                     [propOf actionElement ''value'', propOf actionElement ''role'',
                      propOf actionElement ''target'']) (\<lambda>_.
          call env (TypeText el (propOf actionElement ''value'')))
        else consoleLog ''Unknown action: '' [propOf actionElement ''action''])
       (\<lambda>error. consoleLog ''Failed to  on element: , ''
                   [propOf actionElement ''action'', propOf actionElement ''role'',
                    propOf actionElement ''target''])"

text \<open>One round of the loop of part\_001 lines 217--247.\<close>

definition performAction :: "env \<Rightarrow> json \<Rightarrow> unit prog" where
  "performAction env actionElement =
     andThen (evaluateHandle env actionElement) (\<lambda>element.
     case element of
       None \<Rightarrow> consoleLog ''Element not found for action: , ''
                 [propOf actionElement ''role'', propOf actionElement ''target'']
     | Some el \<Rightarrow> actOn env actionElement el)"

fun performActions :: "env \<Rightarrow> json list \<Rightarrow> unit prog" where
  "performActions env [] = ret ()"
| "performActions env (actionElement # rest) =
     andThen (performAction env actionElement) (\<lambda>_. performActions env rest)"

text \<open>\<^verbatim>\<open>for (let actionElement of response)\<close>\<close>

definition forEachAction :: "env \<Rightarrow> json \<Rightarrow> unit prog" where
  "forEachAction env response =
     (case iterate response of Inl e \<Rightarrow> throw e | Inr actions \<Rightarrow> performActions env actions)"


section \<open>Assertion evaluator\<close>

record successEffect =
  se_action :: "string option"
  se_selector :: "json option"
  se_value :: "json option"
  se_valueType :: "string option"

record assertion =
  a_condition :: "string option"
  a_testValue :: "json option"
  a_onSuccess :: "successEffect option"
  a_description :: "string option"

text \<open>A step; \<open>'s\<close> is the list of assertions in part\_001 and the one assertion in server.js.\<close>

record 's step =
  s_instruction :: "string option"
  s_url :: "string option"
  s_success :: "'s option"
  s_next :: "string option"

text \<open>\<^verbatim>\<open>checkAction\<close> (part\_001 lines 183--194): the loop over the keys still to be visited.\<close>

fun checkKeys :: "json \<Rightarrow> json option \<Rightarrow> string list \<Rightarrow> exn + bool" where
  "checkKeys actionElement testValue [] = Inr True"
| "checkKeys actionElement testValue (key # keys) =
     (if key = ''description'' then Inr True
      else (case getProp actionElement key of
              Inl e \<Rightarrow> Inl e
            | Inr v \<Rightarrow>
                if \<not> strictEq v (propOf (the testValue) key) then Inr False
                else checkKeys actionElement testValue keys))"

definition checkAction :: "json \<Rightarrow> assertion \<Rightarrow> exn + bool" where
  "checkAction actionElement test =
     checkKeys actionElement (a_testValue test) (forInKeys (a_testValue test))"

text \<open>The loop of part\_001 lines 266--271: true at the first action that matches.\<close>

fun anyActionMatches :: "json list \<Rightarrow> assertion \<Rightarrow> exn + bool" where
  "anyActionMatches [] test = Inr False"
| "anyActionMatches (actionElement # rest) test =
     (case checkAction actionElement test of
        Inl e \<Rightarrow> Inl e
      | Inr matched \<Rightarrow> if matched then Inr True else anyActionMatches rest test)"

text \<open>
  The \<^verbatim>\<open>switch\<close> inside the \<^verbatim>\<open>try\<close> of part\_001 lines 252--276: \<open>Inl\<close> when it throws, be it
  \<^verbatim>\<open>Error('test failed')\<close> or a type error. Nothing in it touches the world.
\<close>

definition evalCondition :: "env \<Rightarrow> json \<Rightarrow> assertion \<Rightarrow> exn + unit" where
  "evalCondition env response test =
     (if a_condition test = Some ''responseIsEqual'' then
        (if \<not> strictEq (Some (JStr (jsonStringify env response))) (a_testValue test)
         then Inl FatalError else Inr ())
      else if a_condition test = Some ''responseIncludes'' then
        (if \<not> strIncludes (jsonStringify env response) (toStringU (a_testValue test))
         then Inl FatalError else Inr ())
      else if a_condition test = Some ''actionTaken'' then
        (case iterate response of
           Inl e \<Rightarrow> Inl e
         | Inr actions \<Rightarrow>
             (case anyActionMatches actions test of
                Inl e \<Rightarrow> Inl e
              | Inr testPassed \<Rightarrow> if \<not> testPassed then Inl FatalError else Inr ()))
      else Inr ())"

text \<open>The assertion passes when the \<^verbatim>\<open>catch\<close> of line 277 is not entered.\<close>

definition testPasses :: "env \<Rightarrow> json \<Rightarrow> assertion \<Rightarrow> bool" where
  "testPasses env response test = (evalCondition env response test = Inr ())"

definition waitFor :: "env \<Rightarrow> json option \<Rightarrow> handle prog" where
  "waitFor env selector w =
     (case waitForSelector env (trace w) selector of
        None \<Rightarrow> (Inl PageError, emit (WaitForSelector selector) w)
      | Some h \<Rightarrow> (Inr h, emit (WaitForSelector selector) w))"

text \<open>A method call on what \<^verbatim>\<open>waitForSelector\<close> gave: an array has no such method.\<close>

definition withElement :: "handle \<Rightarrow> (element \<Rightarrow> 'a prog) \<Rightarrow> 'a prog" where
  "withElement h f = (case h of HElement el \<Rightarrow> f el | _ \<Rightarrow> throw TypeError)"

definition evaluateChecked :: "env \<Rightarrow> element \<Rightarrow> bool prog" where
  "evaluateChecked env el w =
     (case isChecked env (trace w) el of
        None \<Rightarrow> (Inl PageError, emit (EvaluateChecked el) w)
      | Some b \<Rightarrow> (Inr b, emit (EvaluateChecked el) w))"

text \<open>
  The \<^verbatim>\<open>switch (valueType)\<close> of part\_001 lines 297--341 and server.js lines 260--304; the two
  differ in the line logged for an unknown value type.
\<close>

definition inputValue ::
  "string \<Rightarrow> env \<Rightarrow> handle \<Rightarrow> json option \<Rightarrow> string option \<Rightarrow> unit prog" where
  "inputValue unknownLine env inputElement val valueType =
     (if valueType = Some ''text'' then
        andThen (consoleLog ''Typing text value: '' [val]) (\<lambda>_.
        withElement inputElement (\<lambda>el. call env (TypeText el val)))
      else if valueType = Some ''number'' then
        andThen (consoleLog ''Typing numeric value: '' [val]) (\<lambda>_.
        case val of
          None \<Rightarrow> throw TypeError
        | Some JNull \<Rightarrow> throw TypeError
        | Some v \<Rightarrow> withElement inputElement (\<lambda>el. call env (TypeText el (Some (JStr (toString v))))))
      else if valueType = Some ''email'' then
        andThen (consoleLog ''Typing email value: '' [val]) (\<lambda>_.
        withElement inputElement (\<lambda>el. call env (TypeText el val)))
      else if valueType = Some ''password'' then
        andThen (consoleLog ''Typing password value: '' [val]) (\<lambda>_.
        withElement inputElement (\<lambda>el. call env (TypeText el val)))
      else if valueType = Some ''checkbox'' then
        andThen (withElement inputElement (evaluateChecked env)) (\<lambda>isChecked.
        if \<not> isChecked then
          andThen (consoleLog ''Checkbox is unchecked. Clicking to check it.'' []) (\<lambda>_.
          withElement inputElement (\<lambda>el. call env (Click el)))
        else consoleLog ''Checkbox is already checked.'' [])
      else if valueType = Some ''radio'' then
        andThen (consoleLog ''Clicking radio button.'' []) (\<lambda>_.
        withElement inputElement (\<lambda>el. call env (Click el)))
      else if valueType = Some ''file'' then
        andThen (consoleLog ''Uploading file: '' [val]) (\<lambda>_.
        withElement inputElement (\<lambda>el. call env (UploadFile el val)))
      else if valueType = Some ''select'' then
        andThen (consoleLog ''Selecting value: '' [val]) (\<lambda>_.
        withElement inputElement (\<lambda>el. call env (SelectOption el val)))
      else consoleLog unknownLine [map_option JStr valueType])"

text \<open>\<^verbatim>\<open>const [element] = await page.waitForSelector(selector); if (element) ...click()\<close>\<close>

definition clickFirst :: "env \<Rightarrow> json option \<Rightarrow> unit prog" where
  "clickFirst env selector =
     andThen (waitFor env selector) (\<lambda>h.
     case h of
       HArray (el # _) \<Rightarrow> call env (Click el)
     | HArray [] \<Rightarrow> ret ()
     | _ \<Rightarrow> throw TypeError)"

text \<open>
  The success effect of part\_001 lines 285--349, on \<^verbatim>\<open>test?.onSuccess || {}\<close>. Nothing here is
  inside a \<^verbatim>\<open>try\<close>: what it throws leaves \<^verbatim>\<open>runScenario\<close>.
\<close>

definition successEffect :: "env \<Rightarrow> successEffect option \<Rightarrow> unit prog" where
  "successEffect env onSuccess =
     (if Option.bind onSuccess se_action = Some ''click'' then
        clickFirst env (Option.bind onSuccess se_selector)
      else if Option.bind onSuccess se_action = Some ''input'' then
        andThen (waitFor env (Option.bind onSuccess se_selector)) (\<lambda>inputElement.
        if inputElement \<noteq> HNull then
          inputValue ''Unknown valueType: . No additional action taken on success.'' env
            inputElement (Option.bind onSuccess se_value) (Option.bind onSuccess se_valueType)
        else consoleLog ''Input element not found for Selector: .  No additional action taken on success''
               [Option.bind onSuccess se_selector])
      else consoleLog ''No additional action taken on success'' [])"

text \<open>
  The loop over the assertions, part\_001 lines 251--350, and \<^verbatim>\<open>return step.next\<close> after it.
  The sentinel is the string \<^verbatim>\<open>_failed\<close>.
\<close>

fun runTests :: "env \<Rightarrow> json \<Rightarrow> string option \<Rightarrow> assertion list \<Rightarrow> string option prog" where
  "runTests env response nxt [] = ret nxt"
| "runTests env response nxt (test # rest) =
     (if \<not> testPasses env response test then
        andThen (consoleLog '': failed.'' [map_option JStr (a_description test)]) (\<lambda>_.
        ret (Some ''_failed''))
      else
        andThen (consoleLog '': succeeded.'' [map_option JStr (a_description test)]) (\<lambda>_.
        andThen (successEffect env (a_onSuccess test)) (\<lambda>_.
        runTests env response nxt rest)))"

text \<open>\<^verbatim>\<open>for (let test of successObject)\<close>: a step without a list of assertions throws.\<close>

definition checkResults :: "env \<Rightarrow> json \<Rightarrow> assertion list step \<Rightarrow> string option prog" where
  "checkResults env response step =
     (case s_success step of
        None \<Rightarrow> throw TypeError
      | Some tests \<Rightarrow> runTests env response (s_next step) tests)"

text \<open>\<^verbatim>\<open>runScenario\<close> of the multi-assertion driver (part\_001 lines 196--353).\<close>

definition runScenario :: "env \<Rightarrow> string \<Rightarrow> assertion list step \<Rightarrow> string option prog" where
  "runScenario env screenReaderOutput step =
     andThen (requestPlan env screenReaderOutput (toStringU (map_option JStr (s_instruction step)))) (\<lambda>response.
     andThen (consoleLog ''Performing actions on the page:'' []) (\<lambda>_.
     andThen (forEachAction env response) (\<lambda>_.
     andThen (consoleLog ''Test results:'' []) (\<lambda>_.
     checkResults env response step))))"


section \<open>The single-assertion driver\<close>

text \<open>
  \<^verbatim>\<open>runScenario\<close> of server.js (lines 163--314). The step has one assertion, which is evaluated
  right after the plan is parsed (lines 184--204); the actions of the plan (lines 206--240)
  and the success effect (lines 243--311) come after it.
\<close>

definition actOnS :: "env \<Rightarrow> json \<Rightarrow> element \<Rightarrow> unit prog" where
  "actOnS env actionElement el =
     tryCatch
       (if strictEq (propOf actionElement ''action'') (Some (JStr ''click'')) then
          andThen (consoleLog ''Clicking on element: , ''
                     [propOf actionElement ''role'', propOf actionElement ''target'']) (\<lambda>_.
          call env (Click el))
        else if strictEq (propOf actionElement ''action'') (Some (JStr ''type'')) then
          andThen (consoleLog ''Typing value: '' [propOf actionElement ''value'']) (\<lambda>_.
          call env (TypeText el (propOf actionElement ''value'')))
        else consoleLog ''Unknown action: '' [propOf actionElement ''action''])
       (\<lambda>error. consoleLog ''Failed to operate on element: , ''
                   [propOf actionElement ''role'', propOf actionElement ''target''])"

definition performActionS :: "env \<Rightarrow> json \<Rightarrow> unit prog" where
  "performActionS env actionElement =
     andThen (consoleLog ''Checking:'' [Some actionElement]) (\<lambda>_.
     case getProp actionElement ''role'' of
       Inl e \<Rightarrow> throw e
     | Inr role \<Rightarrow>
         andThen (consoleLog ''Selector: '' [map_option JStr (map_of roleMap (toStringU role))]) (\<lambda>_.
         andThen (evaluateHandle env actionElement) (\<lambda>element.
         case element of
           None \<Rightarrow> consoleLog ''Element not found for action: , ''
                     [propOf actionElement ''role'', propOf actionElement ''target'']
         | Some el \<Rightarrow>
             andThen (consoleLog ''Action: '' [propOf actionElement ''action'']) (\<lambda>_.
             andThen (actOnS env actionElement el) (\<lambda>_.
             consoleLog [CHR 0x0A, CHR 0x0A] [])))))"

fun performActionsS :: "env \<Rightarrow> json list \<Rightarrow> unit prog" where
  "performActionsS env [] = ret ()"
| "performActionsS env (actionElement # rest) =
     andThen (performActionS env actionElement) (\<lambda>_. performActionsS env rest)"

definition forEachActionS :: "env \<Rightarrow> json \<Rightarrow> unit prog" where
  "forEachActionS env response =
     (case iterate response of Inl e \<Rightarrow> throw e | Inr actions \<Rightarrow> performActionsS env actions)"

definition successEffectS :: "env \<Rightarrow> successEffect option \<Rightarrow> string \<Rightarrow> unit prog" where
  "successEffectS env onSuccess stepName =
     (if Option.bind onSuccess se_action = Some ''click'' then
        clickFirst env (Option.bind onSuccess se_selector)
      else if Option.bind onSuccess se_action = Some ''input'' then
        andThen (consoleLog ''Inputting value...'' []) (\<lambda>_.
        andThen (consoleLog ''Selector: '' [Option.bind onSuccess se_selector]) (\<lambda>_.
        andThen (consoleLog ''Value: '' [Option.bind onSuccess se_value]) (\<lambda>_.
        andThen (consoleLog ''Value Type: '' [map_option JStr (Option.bind onSuccess se_valueType)]) (\<lambda>_.
        andThen (waitFor env (Option.bind onSuccess se_selector)) (\<lambda>inputElement.
        if inputElement \<noteq> HNull then
          andThen (consoleLog ''Found input element for selector: '' [Option.bind onSuccess se_selector]) (\<lambda>_.
          inputValue ''Unknown valueType: . No action taken.'' env
            inputElement (Option.bind onSuccess se_value) (Option.bind onSuccess se_valueType))
        else consoleLog ''Input element not found for Selector: ''
               [Option.bind onSuccess se_selector])))))
      else consoleLog ''No action taken for step '' [Some (JStr stepName)])"

text \<open>Lines 206--314: what follows the evaluation of the assertion when it did not fail.\<close>

definition actAndFinishS :: "env \<Rightarrow> json \<Rightarrow> assertion step \<Rightarrow> string \<Rightarrow> string option prog" where
  "actAndFinishS env response step stepName =
     andThen (forEachActionS env response) (\<lambda>_.
     andThen (successEffectS env (Option.bind (s_success step) a_onSuccess) stepName) (\<lambda>_.
     ret (s_next step)))"

text \<open>The \<^verbatim>\<open>switch (successObject?.condition)\<close> of lines 184--204 and the rest of the function.\<close>

definition judgeAndActS :: "env \<Rightarrow> json \<Rightarrow> assertion step \<Rightarrow> string \<Rightarrow> string option prog" where
  "judgeAndActS env response step stepName =
     (if Option.bind (s_success step) a_condition = Some ''responseIsEqual'' then
        (if strictEq (Some (JStr (jsonStringify env response))) (Option.bind (s_success step) a_testValue)
         then andThen (consoleLog ''Step succeeded.'' []) (\<lambda>_. actAndFinishS env response step stepName)
         else andThen (consoleLog ''Step failed.'' []) (\<lambda>_. ret (Some ''_failed'')))
      else if Option.bind (s_success step) a_condition = Some ''responseIncludes'' then
        (if strIncludes (jsonStringify env response) (toStringU (Option.bind (s_success step) a_testValue))
         then andThen (consoleLog ''Step succeeded.'' []) (\<lambda>_. actAndFinishS env response step stepName)
         else andThen (consoleLog ''Step failed.'' []) (\<lambda>_. ret (Some ''_failed'')))
      else andThen (consoleLog ''Step succeeded.'' []) (\<lambda>_. actAndFinishS env response step stepName))"

definition runScenarioS :: "env \<Rightarrow> string \<Rightarrow> assertion step \<Rightarrow> string \<Rightarrow> string option prog" where
  "runScenarioS env screenReaderOutput step stepName =
     andThen (requestPlan env screenReaderOutput (toStringU (map_option JStr (s_instruction step)))) (\<lambda>response.
     judgeAndActS env response step stepName)"


section \<open>Scenario state machine\<close>

text \<open>
  The loop of the multi-assertion driver (part\_001 lines 392--422). The step names are the keys
  of the \<^verbatim>\<open>steps\<close> object of the scenario file.
\<close>











section \<open>Notions used to state the properties, and example scenarios\<close>

definition systemMessage :: "string \<Rightarrow> message" where
  "systemMessage text = \<lparr>msg_role = ''system'', msg_content = text\<rparr>"

definition userMessage :: "string \<Rightarrow> message" where
  "userMessage text = \<lparr>msg_role = ''user'', msg_content = text\<rparr>"

text \<open>A node whose role is not \<^verbatim>\<open>null\<close>, as opposed to \<open>hasRole\<close>, which is what the code tests.\<close>

definition hasNonNullRole :: "node \<times> nat \<Rightarrow> bool" where
  "hasNonNullRole p = (node_role (fst p) \<noteq> None)"

text \<open>The texts of a node are free of newlines.\<close>

definition oneLine :: "string option \<Rightarrow> bool" where
  "oneLine s = (case s of None \<Rightarrow> True | Some t \<Rightarrow> CHR 0x0A \<notin> set t)"

definition plainTexts :: "node \<times> nat \<Rightarrow> bool" where
  "plainTexts p = (oneLine (node_role (fst p)) \<and> oneLine (node_name (fst p))
                    \<and> oneLine (node_description (fst p)))"

text \<open>
  What a list of assertions that all pass makes happen: for each in turn, the line that it
  succeeded and then its success effect.
\<close>

fun passingRun :: "env \<Rightarrow> assertion list \<Rightarrow> unit prog" where
  "passingRun env [] = ret ()"
| "passingRun env (test # rest) =
     andThen (consoleLog '': succeeded.'' [map_option JStr (a_description test)]) (\<lambda>_.
     andThen (successEffect env (a_onSuccess test)) (\<lambda>_.
     passingRun env rest))"

text \<open>
  The pattern matching that the specification describes for \<^verbatim>\<open>actionTaken\<close>: some action of the
  plan equals the pattern on every declared key other than \<^verbatim>\<open>description\<close>.
\<close>

definition specActionMatches :: "json \<Rightarrow> json option \<Rightarrow> bool" where
  "specActionMatches actionElement pattern =
     list_all (\<lambda>key. key = ''description'' \<or> strictEq (propOf actionElement key) (propOf (the pattern) key))
       (forInKeys pattern)"

definition specActionTaken :: "json list \<Rightarrow> json option \<Rightarrow> bool" where
  "specActionTaken plan pattern = list_ex (\<lambda>actionElement. specActionMatches actionElement pattern) plan"

text \<open>
  What \<^verbatim>\<open>checkAction\<close> compares: the keys of the pattern that are enumerated before the first
  key named \<^verbatim>\<open>description\<close>.
\<close>

definition matchesBeforeDescription :: "json \<Rightarrow> json option \<Rightarrow> bool" where
  "matchesBeforeDescription actionElement pattern =
     list_all (\<lambda>key. strictEq (propOf actionElement key) (propOf (the pattern) key))
       (takeWhile (\<lambda>key. key \<noteq> ''description'') (forInKeys pattern))"


text \<open>Example data: a page with one button, and the plan that clicks it, with its JSON text.\<close>

definition quoted :: "string \<Rightarrow> string" where
  "quoted s = CHR 0x22 # s @ [CHR 0x22]"

definition submitButton :: element where
  "submitButton = \<lparr>textContent = ''Submit'', ariaLabel = None, placeholder = None\<rparr>"

definition clickSubmit :: json where
  "clickSubmit =
     JObj [(''action'', JStr ''click''), (''role'', JStr ''Button''), (''target'', JStr ''Submit''),
           (''value'', JStr ''leftMouseButton'')]"

definition clickSubmitText :: string where
  "clickSubmitText =
     ''[{'' @ quoted ''action'' @ '':'' @ quoted ''click'' @ '','' @ quoted ''role'' @ '':'' @ quoted ''Button''
       @ '','' @ quoted ''target'' @ '':'' @ quoted ''Submit'' @ '','' @ quoted ''value'' @ '':''
       @ quoted ''leftMouseButton'' @ ''}]''"

text \<open>
  An environment for examples: the remote model answers by the length of the history it is
  sent, \<^verbatim>\<open>JSON.parse\<close> and \<^verbatim>\<open>JSON.stringify\<close> are given by a table of texts and their values,
  the page answers a query by the selector alone, and every browser primitive returns.
\<close>

definition scriptedEnv ::
  "(nat \<Rightarrow> string) \<Rightarrow> (string \<times> json) list \<Rightarrow> (string option \<Rightarrow> element list) \<Rightarrow> handle \<Rightarrow> env" where
  "scriptedEnv reply texts query h =
     \<lparr>chat = (\<lambda>tr msgs. Some \<lparr>msg_role = ''assistant'', msg_content = reply (length msgs)\<rparr>),
      jsonParse = map_of texts,
      jsonStringify = (\<lambda>j. case find (\<lambda>p. snd p = j) texts of None \<Rightarrow> [] | Some p \<Rightarrow> fst p),
      querySelectorAll = (\<lambda>tr sel. Some (query sel)),
      primitive = (\<lambda>tr ev. True),
      waitForSelector = (\<lambda>tr sel. Some h),
      isChecked = (\<lambda>tr el. Some False),
      snapshot = (\<lambda>tr. Some None)\<rparr>"

definition emptyWorld :: world where
  "emptyWorld = \<lparr>messages = [], trace = []\<rparr>"




text \<open>A page whose buttons are the one button, with a model that answers with the plan at once.\<close>

definition buttonEnv :: env where
  "buttonEnv = scriptedEnv (\<lambda>n. clickSubmitText) [(clickSubmitText, JArr [clickSubmit])]
                 (\<lambda>sel. if sel = Some ''button'' then [submitButton] else []) HNull"

text \<open>A model that answers in prose first and with the empty plan when asked again.\<close>

definition retryEnv :: env where
  "retryEnv = scriptedEnv (\<lambda>n. if n \<le> 2 then ''Sure, I would click Submit.'' else ''[]'')
                [(''[]'', JArr [])] (\<lambda>sel. []) HNull"

text \<open>A model that only ever answers in prose.\<close>

definition proseEnv :: env where
  "proseEnv = scriptedEnv (\<lambda>n. ''Sure, I would click Submit.'') [] (\<lambda>sel. []) HNull"

text \<open>A page on which \<^verbatim>\<open>waitForSelector\<close> finds an input element.\<close>

definition inputEnv :: env where
  "inputEnv = scriptedEnv (\<lambda>n. ''[]'') [(''[]'', JArr [])] (\<lambda>sel. [])
                (HElement \<lparr>textContent = [], ariaLabel = None, placeholder = Some ''Age''\<rparr>)"

definition expectEmptyPlan :: assertion where
  "expectEmptyPlan =
     \<lparr>a_condition = Some ''responseIsEqual'', a_testValue = Some (JStr ''[]''),
      a_onSuccess = None, a_description = Some ''nothing to do''\<rparr>"

definition clickedSubmit :: assertion where
  "clickedSubmit =
     \<lparr>a_condition = Some ''actionTaken'',
      a_testValue = Some (JObj [(''action'', JStr ''click''), (''role'', JStr ''Button''),
                                (''target'', JStr ''Submit'')]),
      a_onSuccess = None, a_description = Some ''clicked submit''\<rparr>"

definition mentionsSubmit :: assertion where
  "mentionsSubmit =
     \<lparr>a_condition = Some ''responseIncludes'', a_testValue = Some (JStr ''Submit''),
      a_onSuccess = None, a_description = Some ''mentions submit''\<rparr>"

definition exactPlan :: assertion where
  "exactPlan =
     \<lparr>a_condition = Some ''responseIsEqual'', a_testValue = Some (JStr clickSubmitText),
      a_onSuccess = None, a_description = Some ''exactly one click''\<rparr>"

definition unconditional :: assertion where
  "unconditional =
     \<lparr>a_condition = None, a_testValue = None, a_onSuccess = None, a_description = Some ''always''\<rparr>"

definition anyAction :: assertion where
  "anyAction =
     \<lparr>a_condition = Some ''actionTaken'', a_testValue = Some (JObj []),
      a_onSuccess = None, a_description = Some ''did something''\<rparr>"

text \<open>An assertion without a condition whose effect types a number, with no value given.\<close>

definition typeAge :: assertion where
  "typeAge =
     \<lparr>a_condition = None, a_testValue = None,
      a_onSuccess = Some \<lparr>se_action = Some ''input'', se_selector = Some (JStr ''#age''),
                          se_value = None, se_valueType = Some ''number''\<rparr>,
      a_description = Some ''age typed''\<rparr>"

definition clickLink :: json where
  "clickLink = JObj [(''action'', JStr ''click''), (''role'', JStr ''Link''), (''target'', JStr ''Submit'')]"


text \<open>Two patterns that differ in a \<^verbatim>\<open>description\<close> key, declared first.\<close>

definition plainButton :: assertion where
  "plainButton =
     \<lparr>a_condition = Some ''actionTaken'',
      a_testValue = Some (JObj [(''role'', JStr ''Button'')]),
      a_onSuccess = None, a_description = Some ''used the button''\<rparr>"

definition describedButton :: assertion where
  "describedButton =
     \<lparr>a_condition = Some ''actionTaken'',
      a_testValue = Some (JObj [(''description'', JStr ''the submit button''), (''role'', JStr ''Button'')]),
      a_onSuccess = None, a_description = Some ''used the button''\<rparr>"

definition describedLast :: assertion where
  "describedLast =
     \<lparr>a_condition = Some ''actionTaken'',
      a_testValue = Some (JObj ([(''role'', JStr ''Button'')] @ [(''description'', JStr ''the submit button'')])),
      a_onSuccess = None, a_description = Some ''used the button''\<rparr>"

text \<open>The same failing step in the schema of each driver.\<close>

definition stepS :: "assertion step" where
  "stepS = \<lparr>s_instruction = Some ''click submit'', s_url = Some ''http://x'',
            s_success = Some expectEmptyPlan, s_next = Some ''_end''\<rparr>"

definition stepP :: "assertion list step" where
  "stepP = \<lparr>s_instruction = Some ''click submit'', s_url = Some ''http://x'',
            s_success = Some [expectEmptyPlan], s_next = Some ''_end''\<rparr>"

definition shortCircuitStep :: "assertion list step" where
  "shortCircuitStep =
     \<lparr>s_instruction = None, s_url = None,
      s_success = Some [clickedSubmit, expectEmptyPlan, typeAge], s_next = Some ''_end''\<rparr>"

definition passingStep :: "assertion list step" where
  "passingStep =
     \<lparr>s_instruction = None, s_url = None, s_success = Some [clickedSubmit], s_next = Some ''_end''\<rparr>"

definition typeAgeStep :: "assertion list step" where
  "typeAgeStep =
     \<lparr>s_instruction = Some ''enter your age'', s_url = None, s_success = Some [typeAge],
      s_next = Some ''_end''\<rparr>"


definition titleHeading :: node where
  "titleHeading = Node (Some ''heading'') (Some ''Title'') None None []"

definition unnamedGroup :: node where
  "unnamedGroup = Node None None None None [Node (Some ''link'') (Some ''Home'') None None []]"

definition menuTree :: node where
  "menuTree = Node (Some ''button'') (Some ''Menu'') None None [titleHeading, unnamedGroup]"

definition emptyRoleNode :: node where
  "emptyRoleNode = Node (Some []) None None None []"



section \<open>Basic facts\<close>

lemma strIncludes_sublist: "strIncludes s t = sublist t s"
  by (induction s) (auto simp: sublist_Cons_right)

lemma strictEq_JStr: "strictEq (Some (JStr s)) v = (v = Some (JStr s))"
  by (cases "(Some (JStr s), v)" rule: strictEq.cases) auto

lemma andThen_assoc: "andThen (andThen m f) g = andThen m (\<lambda>x. andThen (f x) g)"
  by (rule ext) (simp add: andThen_def split: prod.splits sum.splits)

lemma andThen_ret: "andThen (ret x) f = f x"
  by (rule ext) (simp add: andThen_def ret_def)

lemma clientSetup_eq:
  "clientSetup env p w =
     ((case chat env (trace w) [systemMessage p] of None \<Rightarrow> Inl RemoteError | Some m \<Rightarrow> Inr ()),
      w\<lparr>messages := [systemMessage p], trace := trace w @ [ChatRequest [systemMessage p]]\<rparr>)"
  by (simp add: clientSetup_def andThen_def push_def clientChat_def ret_def emit_def
      systemMessage_def split: option.splits)

lemma clientSend_eq:
  "clientSend env m w =
     (case chat env (trace w) (messages w @ [userMessage m]) of
        None \<Rightarrow> (Inl RemoteError,
                 w\<lparr>messages := messages w @ [userMessage m],
                   trace := trace w @ [ChatRequest (messages w @ [userMessage m])]\<rparr>)
      | Some r \<Rightarrow> (Inr (msg_content r),
                 w\<lparr>messages := messages w @ [userMessage m, r],
                   trace := trace w @ [ChatRequest (messages w @ [userMessage m])]\<rparr>))"
  by (simp add: clientSend_def andThen_def push_def clientChat_def ret_def emit_def
      userMessage_def split: option.splits)


lemma clientSetup0_appends:
  "messages (snd (clientSetup0 env p w)) = messages w @ [systemMessage p]"
  by (simp add: clientSetup0_def andThen_def push_def clientChat_def ret_def emit_def
      systemMessage_def split: option.splits)

lemma getProp_not_null: "a \<noteq> JNull \<Longrightarrow> getProp a key = Inr (propOf a key)"
  by (cases a) (simp_all add: propOf_def)

lemma checkKeys_takeWhile:
  "a \<noteq> JNull \<Longrightarrow>
     checkKeys a pattern keys =
       Inr (list_all (\<lambda>key. strictEq (propOf a key) (propOf (the pattern) key))
              (takeWhile (\<lambda>key. key \<noteq> ''description'') keys))"
  by (induction keys) (simp_all add: getProp_not_null)

lemma anyActionMatches_list_ex:
  "JNull \<notin> set plan \<Longrightarrow>
     anyActionMatches plan t = Inr (list_ex (\<lambda>a. matchesBeforeDescription a (a_testValue t)) plan)"
  by (induction plan)
     (auto simp add: checkAction_def checkKeys_takeWhile matchesBeforeDescription_def)

lemma matchesBeforeDescription_appended:
  "matchesBeforeDescription a (Some (JObj (kvs @ [(''description'', d)])))
     = matchesBeforeDescription a (Some (JObj kvs))"
proof -
  have t: "takeWhile (\<lambda>key. key \<noteq> ''description'') (map fst kvs @ [''description''])
             = takeWhile (\<lambda>key. key \<noteq> ''description'') (map fst kvs)"
    by (induction kvs) simp_all
  have p: "key \<noteq> ''description'' \<Longrightarrow>
             propOf (JObj (kvs @ [(''description'', d)])) key = propOf (JObj kvs) key" for key
    by (simp add: propOf_def map_add_def split: option.splits)
  have "list_all (\<lambda>key. strictEq (propOf a key) (propOf (JObj (kvs @ [(''description'', d)])) key)) ks
          = list_all (\<lambda>key. strictEq (propOf a key) (propOf (JObj kvs) key)) ks"
    if "''description'' \<notin> set ks" for ks
    using that by (induction ks) (auto simp add: p)
  moreover have "''description'' \<notin> set (takeWhile (\<lambda>key. key \<noteq> ''description'') (map fst kvs))"
    by (auto dest: set_takeWhileD)
  ultimately show ?thesis
    by (simp add: matchesBeforeDescription_def t)
qed


section \<open>Accessibility projector: properties\<close>

lemma repeat_two_spaces: "repeat ''  '' depth = replicate (2 * depth) (CHR '' '')"
  by (induction depth) simp_all

lemma ownOutput_lineOf: "ownOutput n depth = (if hasRole (n, depth) then lineOf (n, depth) else [])"
  by (auto simp: ownOutput_def hasRole_def lineOf_def truthy_def repeat_two_spaces split: option.splits)

lemma output_preorder:
  "generateScreenReaderOutput n depth = concat (map lineOf (filter hasRole (preorder n depth)))"
  "childrenOutput cs depth = concat (map lineOf (filter hasRole (preorderList cs depth)))"
  by (induction n depth and cs depth rule: generateScreenReaderOutput_childrenOutput.induct)
     (simp_all add: ownOutput_lineOf)


lemma newlines_append: "newlines (xs @ ys) = newlines xs + newlines ys"
  by (simp add: newlines_def)

lemma newlines_Nil: "newlines [] = 0"
  by (simp add: newlines_def)

lemma newlines_Cons: "newlines (c # s) = (if c = CHR 0x0A then 1 else 0) + newlines s"
  by (simp add: newlines_def)

lemma newlines_none: "CHR 0x0A \<notin> set s \<Longrightarrow> newlines s = 0"
  by (induction s) (auto simp add: newlines_def)

lemma digit_not_newline: "n < 10 \<Longrightarrow> digit n \<noteq> CHR 0x0A"
proof -
  assume "n < 10"
  then have "digit n \<in> set ''0123456789''" unfolding digit_def by (intro nth_mem) simp
  then show ?thesis by auto
qed

lemma string_of_nat_no_newline: "CHR 0x0A \<notin> set (string_of_nat n)"
proof (induction n rule: string_of_nat.induct)
  case (1 n)
  show ?case
  proof (cases "n < 10")
    case True
    then show ?thesis using digit_not_newline [of n] by (subst string_of_nat.simps) auto
  next
    case False
    with "1.IH" digit_not_newline [of "n mod 10"] show ?thesis
      by (subst string_of_nat.simps) auto
  qed
qed

lemma levelOr1_no_newline: "CHR 0x0A \<notin> set (levelOr1 l)"
  by (auto simp add: levelOr1_def string_of_int_def string_of_nat_no_newline split: option.splits)

lemma toUpperCase_not_newline: "c \<noteq> CHR 0x0A \<Longrightarrow> toUpperCase c \<noteq> CHR 0x0A"
proof (cases "97 \<le> (of_char c :: nat) \<and> (of_char c :: nat) \<le> 122")
  case False
  assume "c \<noteq> CHR 0x0A"
  with False show ?thesis by (auto simp add: toUpperCase_def)
next
  case True
  have "(of_char (toUpperCase c) :: nat) = (of_char c - 32) mod 256"
    using True by (simp add: toUpperCase_def of_char_of)
  also have "\<dots> = of_char c - 32" using True by (intro mod_less) arith
  finally have "(of_char (toUpperCase c) :: nat) \<ge> 65" using True by arith
  then show ?thesis by auto
qed

lemma capitalize_no_newline: "CHR 0x0A \<notin> set r \<Longrightarrow> CHR 0x0A \<notin> set (capitalize r)"
proof (cases r)
  case Nil
  then show ?thesis by (simp add: capitalize_def)
next
  case (Cons c cs)
  assume "CHR 0x0A \<notin> set r"
  with Cons have "c \<noteq> CHR 0x0A" and "CHR 0x0A \<notin> set cs" by auto
  with Cons toUpperCase_not_newline [of c] show ?thesis
    by (auto simp add: capitalize_def)
qed

lemma orElse_no_newline: "oneLine s \<Longrightarrow> CHR 0x0A \<notin> set d \<Longrightarrow> CHR 0x0A \<notin> set (orElse s d)"
  by (auto simp add: orElse_def oneLine_def split: option.splits)

lemma phrase_no_newline:
  assumes "CHR 0x0A \<notin> set r" and "oneLine (node_name n)" and "oneLine (node_description n)"
  shows "CHR 0x0A \<notin> set (phrase r n)"
proof -
  have nm: "CHR 0x0A \<notin> set d \<Longrightarrow> CHR 0x0A \<notin> set (orElse (node_name n) d)" for d
    using assms(2) by (rule orElse_no_newline)
  have ds: "CHR 0x0A \<notin> set (orElse (node_description n) [])"
    using assms(3) by (rule orElse_no_newline) simp
  have cp: "CHR 0x0A \<notin> set (capitalize r)"
    using assms(1) by (rule capitalize_no_newline)
  show ?thesis
    by (simp add: phrase_def levelOr1_no_newline nm ds cp)
qed

lemma newlines_lineOf:
  assumes "hasRole p" and "plainTexts p"
  shows "newlines (lineOf p) = 1"
proof -
  from assms obtain r where r: "node_role (fst p) = Some r" and nr: "CHR 0x0A \<notin> set r"
    by (auto simp add: hasRole_def plainTexts_def oneLine_def)
  from assms(2) have nm: "oneLine (node_name (fst p))" and ds: "oneLine (node_description (fst p))"
    by (simp_all add: plainTexts_def)
  have ph: "newlines (phrase r (fst p)) = 0"
    using phrase_no_newline [OF nr nm ds] by (rule newlines_none)
  have dd: "truthy (node_description (fst p)) \<Longrightarrow> newlines (the (node_description (fst p))) = 0"
    using ds by (auto simp add: truthy_def oneLine_def newlines_none split: option.splits)
  have sp: "newlines (replicate k (CHR '' '')) = 0" for k
    by (rule newlines_none) simp
  show ?thesis
    by (simp add: lineOf_def r newlines_append ph dd sp newlines_Cons newlines_Nil)
qed

lemma newlines_lines:
  "\<forall>p \<in> set ps. plainTexts p \<Longrightarrow>
     newlines (concat (map lineOf (filter hasRole ps))) = length (filter hasRole ps)"
proof (induction ps)
  case Nil
  show ?case by (simp add: newlines_def)
next
  case (Cons p ps)
  then show ?case by (simp add: newlines_append newlines_lineOf)
qed


section \<open>State machine: auxiliary facts\<close>

lemma runTests_passing_prefix:
  "\<forall>a \<in> set pre. testPasses env response a \<Longrightarrow>
     runTests env response nxt (pre @ rest) =
       andThen (passingRun env pre) (\<lambda>_. runTests env response nxt rest)"
  by (induction pre) (simp_all add: andThen_assoc andThen_ret)

lemma successEffect_absent:
  "successEffect env None w = (Inr (), emit (Console ''No additional action taken on success'' []) w)"
  by (simp add: successEffect_def consoleLog_def)

lemma passingRun_no_effects:
  "\<forall>a \<in> set tests. a_onSuccess a = None \<Longrightarrow> fst (passingRun env tests w) = Inr ()"
  by (induction tests arbitrary: w)
     (simp_all add: ret_def andThen_def consoleLog_def successEffect_absent)














section \<open>Facts about the example scenarios\<close>

lemma stringify_buttonEnv: "jsonStringify buttonEnv (JArr [clickSubmit]) = clickSubmitText"
  by (simp add: buttonEnv_def scriptedEnv_def)

lemma clickSubmitText_not_empty: "clickSubmitText \<noteq> ''[]''"
  by (simp add: clickSubmitText_def)

lemma clickSubmitText_includes: "strIncludes clickSubmitText ''Submit''"
  by (simp add: clickSubmitText_def quoted_def)

lemma testPasses_clickedSubmit: "testPasses buttonEnv (JArr [clickSubmit]) clickedSubmit"
  by (simp add: testPasses_def evalCondition_def clickedSubmit_def clickSubmit_def checkAction_def
      propOf_def)

lemma not_testPasses_expectEmptyPlan: "\<not> testPasses buttonEnv (JArr [clickSubmit]) expectEmptyPlan"
  by (simp add: testPasses_def evalCondition_def expectEmptyPlan_def stringify_buttonEnv
      clickSubmitText_def)

lemma requestPlan_buttonEnv:
  "fst (requestPlan buttonEnv sro instr w) = Inr (JArr [clickSubmit])
   \<and> trace (snd (requestPlan buttonEnv sro instr w)) =
       trace w @ [ChatRequest [systemMessage setupPrompt],
                  ChatRequest [systemMessage setupPrompt, userMessage (firstPrompt sro instr)]]"
  by (simp add: requestPlan_def andThen_def clientSetup_eq clientSend_eq ret_def
      buttonEnv_def scriptedEnv_def)

lemma forEachAction_buttonEnv:
  "forEachAction buttonEnv (JArr [clickSubmit]) w =
     (Inr (), w\<lparr>trace := trace w @ [EvaluateHandle clickSubmit,
        Console ''Clicking on element: , '' [Some (JStr ''Button''), Some (JStr ''Submit'')],
        Click submitButton]\<rparr>)"
proof -
  have q: "querySelectorAll buttonEnv tr (map_of roleMap ''Button'') = Some [submitButton]" for tr
    by (simp add: buttonEnv_def scriptedEnv_def roleMap_def)
  have pr: "primitive buttonEnv tr ev" for tr ev
    by (simp add: buttonEnv_def scriptedEnv_def)
  have m: "matchesTarget ''Submit'' submitButton"
    by (simp add: matchesTarget_def submitButton_def)
  show ?thesis
    by (simp add: forEachAction_def andThen_def performAction_def evaluateHandle_def q m pr
        clickSubmit_def toStringU_def propOf_def actOn_def tryCatch_def consoleLog_def call_def
        emit_def ret_def)
qed





section \<open>The claims\<close>

subsection \<open>Action plan parser\<close>

text \<open>
  C1. In every execution of the parser at most three requests go to the remote model (the
  priming exchange and at most two messages), and the history ends with at most five messages.
  When the remote model answers: if the first reply parses, the plan is its value, and only
  the first message was sent; if it does not parse, the corrective message is sent, and the
  result is the value of the second reply if that parses and the fatal error if it does not.
  No third message is sent and no third reply is parsed. An exception of the parser ends the
  step of either driver with that exception.
\<close>

theorem plan_parser_one_retry:
  "length (trace (snd (requestPlan env sro instr w))) \<le> length (trace w) + 3
   \<and> length (messages (snd (requestPlan env sro instr w))) \<le> 5
   \<and> (chat env (trace w) [systemMessage setupPrompt] = Some r0 \<and>
      chat env (trace w @ [ChatRequest [systemMessage setupPrompt]])
        [systemMessage setupPrompt, userMessage (firstPrompt sro instr)] = Some r1
      \<longrightarrow>
      (jsonParse env (msg_content r1) = Some plan \<longrightarrow>
         requestPlan env sro instr w =
           (Inr plan,
            w\<lparr>messages := [systemMessage setupPrompt, userMessage (firstPrompt sro instr), r1],
              trace := trace w @ [ChatRequest [systemMessage setupPrompt],
                        ChatRequest [systemMessage setupPrompt, userMessage (firstPrompt sro instr)]]\<rparr>))
      \<and> (jsonParse env (msg_content r1) = None \<and>
           chat env (trace w @ [ChatRequest [systemMessage setupPrompt],
                       ChatRequest [systemMessage setupPrompt, userMessage (firstPrompt sro instr)]])
             [systemMessage setupPrompt, userMessage (firstPrompt sro instr), r1,
              userMessage (correctivePrompt sro instr)] = Some r2 \<longrightarrow>
         requestPlan env sro instr w =
           ((case jsonParse env (msg_content r2) of Some p \<Rightarrow> Inr p | None \<Rightarrow> Inl FatalError),
            w\<lparr>messages := [systemMessage setupPrompt, userMessage (firstPrompt sro instr), r1,
                            userMessage (correctivePrompt sro instr), r2],
              trace := trace w @ [ChatRequest [systemMessage setupPrompt],
                        ChatRequest [systemMessage setupPrompt, userMessage (firstPrompt sro instr)],
                        ChatRequest [systemMessage setupPrompt, userMessage (firstPrompt sro instr), r1,
                          userMessage (correctivePrompt sro instr)]]\<rparr>)))
   \<and> (requestPlan env sro (toStringU (map_option JStr (s_instruction step))) w = (Inl e, w') \<longrightarrow>
        runScenario env sro step w = (Inl e, w'))
   \<and> (requestPlan env sro (toStringU (map_option JStr (s_instruction step1))) w = (Inl e, w') \<longrightarrow>
        runScenarioS env sro step1 stepName w = (Inl e, w'))"
  by (auto simp add: requestPlan_def andThen_def clientSetup_eq clientSend_eq ret_def throw_def
      runScenario_def runScenarioS_def split: option.splits)

text \<open>
  A model that answers with the plan at once is asked once (three messages in the history);
  one that answers in prose first is asked twice (five messages); with one that only answers in
  prose the step ends with the fatal error after three requests.
\<close>

theorem plan_parser_one_retry_witness:
  "jsonParse buttonEnv clickSubmitText = Some (JArr [clickSubmit])
   \<and> fst (requestPlan buttonEnv [] ''click submit'' emptyWorld) = Inr (JArr [clickSubmit])
   \<and> length (messages (snd (requestPlan buttonEnv [] ''click submit'' emptyWorld))) = 3
   \<and> jsonParse retryEnv ''Sure, I would click Submit.'' = None
   \<and> jsonParse retryEnv ''[]'' = Some (JArr [])
   \<and> fst (requestPlan retryEnv [] ''click submit'' emptyWorld) = Inr (JArr [])
   \<and> length (messages (snd (requestPlan retryEnv [] ''click submit'' emptyWorld))) = 5
   \<and> jsonParse proseEnv ''Sure, I would click Submit.'' = None
   \<and> fst (runScenario proseEnv [] stepP emptyWorld) = Inl FatalError
   \<and> length (trace (snd (runScenario proseEnv [] stepP emptyWorld))) = 3
   \<and> fst (runScenarioS proseEnv [] stepS ''_start'' emptyWorld) = Inl FatalError"
proof -
  let ?prose = "\<lparr>msg_role = ''assistant'', msg_content = ''Sure, I would click Submit.''\<rparr>"
  let ?plan = "\<lparr>msg_role = ''assistant'', msg_content = clickSubmitText\<rparr>"
  have once:
    "fst (requestPlan buttonEnv [] ''click submit'' emptyWorld) = Inr (JArr [clickSubmit])
     \<and> length (messages (snd (requestPlan buttonEnv [] ''click submit'' emptyWorld))) = 3"
    using plan_parser_one_retry [of buttonEnv "[]" "''click submit''" emptyWorld ?plan ?plan
            "JArr [clickSubmit]" ?plan]
    by (simp add: buttonEnv_def scriptedEnv_def emptyWorld_def)
  have twice:
    "fst (requestPlan retryEnv [] ''click submit'' emptyWorld) = Inr (JArr [])
     \<and> length (messages (snd (requestPlan retryEnv [] ''click submit'' emptyWorld))) = 5"
    using plan_parser_one_retry [of retryEnv "[]" "''click submit''" emptyWorld ?prose ?prose
            "JArr []" "\<lparr>msg_role = ''assistant'', msg_content = ''[]''\<rparr>"]
    by (simp add: retryEnv_def scriptedEnv_def emptyWorld_def)
  obtain w' where fatal: "requestPlan proseEnv [] ''click submit'' emptyWorld = (Inl FatalError, w')"
    and three: "length (trace w') = 3"
    using plan_parser_one_retry [of proseEnv "[]" "''click submit''" emptyWorld ?prose ?prose
            "JArr []" ?prose]
    by (simp add: proseEnv_def scriptedEnv_def emptyWorld_def)
  have aborted:
    "runScenario proseEnv [] stepP emptyWorld = (Inl FatalError, w')
     \<and> runScenarioS proseEnv [] stepS ''_start'' emptyWorld = (Inl FatalError, w')"
    using plan_parser_one_retry [of proseEnv "[]" "''click submit''" emptyWorld ?prose ?prose
            "JArr []" ?prose stepP FatalError w' stepS "''_start''"] fatal
    by (simp add: stepP_def stepS_def toStringU_def)
  have parses:
    "jsonParse buttonEnv clickSubmitText = Some (JArr [clickSubmit])
     \<and> jsonParse retryEnv ''Sure, I would click Submit.'' = None
     \<and> jsonParse retryEnv ''[]'' = Some (JArr [])
     \<and> jsonParse proseEnv ''Sure, I would click Submit.'' = None"
    by (simp add: buttonEnv_def retryEnv_def proseEnv_def scriptedEnv_def)
  from once twice aborted three parses show ?thesis by simp
qed


subsection \<open>Pattern matching of \<^verbatim>\<open>actionTaken\<close>\<close>

text \<open>
  C2, as amended. On a plan without \<^verbatim>\<open>null\<close> actions, an \<^verbatim>\<open>actionTaken\<close> assertion passes
  exactly when some action equals the pattern, by strict equality, on every key of the pattern
  that is enumerated before the first key named \<^verbatim>\<open>description\<close> (on every key, when there is
  none); the keys after it are not compared. A \<^verbatim>\<open>description\<close> key added after all the keys of
  a pattern does not change the outcome.
\<close>

theorem matching_stops_at_description:
  "(a_condition t = Some ''actionTaken'' \<and> JNull \<notin> set plan \<longrightarrow>
      (testPasses env (JArr plan) t \<longleftrightarrow>
         list_ex (\<lambda>a. matchesBeforeDescription a (a_testValue t)) plan))
   \<and> (a_condition t = Some ''actionTaken'' \<and> JNull \<notin> set plan \<and>
        a_testValue t = Some (JObj kvs) \<and>
        a_condition t' = Some ''actionTaken'' \<and>
        a_testValue t' = Some (JObj (kvs @ [(''description'', d)])) \<longrightarrow>
      (testPasses env (JArr plan) t' \<longleftrightarrow> testPasses env (JArr plan) t))"
  by (auto simp add: testPasses_def evalCondition_def anyActionMatches_list_ex
      matchesBeforeDescription_appended)

text \<open>
  The pattern \<^verbatim>\<open>{role: "Button"}\<close>, alone and with a \<^verbatim>\<open>description\<close> key after it, passes on
  the plan that clicks a link and then a button, and fails on the plan that only clicks a link.
\<close>

theorem matching_stops_at_description_witness:
  "JNull \<notin> set [clickLink, clickSubmit]
   \<and> testPasses buttonEnv (JArr [clickLink, clickSubmit]) plainButton
   \<and> testPasses buttonEnv (JArr [clickLink, clickSubmit]) describedLast
   \<and> \<not> testPasses buttonEnv (JArr [clickLink]) plainButton
   \<and> \<not> testPasses buttonEnv (JArr [clickLink]) describedLast"
  using matching_stops_at_description
          [of plainButton "[clickLink, clickSubmit]" buttonEnv "[(''role'', JStr ''Button'')]"
              describedLast "JStr ''the submit button''"]
        matching_stops_at_description
          [of plainButton "[clickLink]" buttonEnv "[(''role'', JStr ''Button'')]"
              describedLast "JStr ''the submit button''"]
  by (simp add: plainButton_def describedLast_def clickLink_def clickSubmit_def
      matchesBeforeDescription_def propOf_def)

text \<open>
  C2 as stated fails. The plan is one click on a link. The pattern \<^verbatim>\<open>{role: "Button"}\<close> fails
  on it. With a \<^verbatim>\<open>description\<close> key declared first the assertion passes: the loop of
  \<^verbatim>\<open>checkAction\<close> returns \<^verbatim>\<open>true\<close> at that key and never compares the role, although no action
  equals the pattern on every key other than \<^verbatim>\<open>description\<close>.
\<close>

theorem description_key_ends_matching:
  "testPasses buttonEnv (JArr [clickLink]) describedButton
   \<and> \<not> specActionTaken [clickLink] (a_testValue describedButton)
   \<and> \<not> testPasses buttonEnv (JArr [clickLink]) plainButton
   \<and> \<not> specActionTaken [clickLink] (a_testValue plainButton)"
  by (simp add: testPasses_def evalCondition_def describedButton_def plainButton_def clickLink_def
      checkAction_def specActionTaken_def specActionMatches_def propOf_def)


subsection \<open>Evaluation of the assertion list\<close>

text \<open>
  C3, as amended. For a step with a list of assertions: if the assertions before \<open>t\<close> all pass
  and \<open>t\<close> fails, the step does what the passing ones make happen (for each in turn its success
  line, then its success effect), then logs the failure of \<open>t\<close> and yields \<^verbatim>\<open>_failed\<close>: neither
  the assertions after \<open>t\<close>, nor an effect of \<open>t\<close>, nor \<^verbatim>\<open>next\<close> play a part. If all assertions
  pass, the step does what they make happen and then yields \<^verbatim>\<open>next\<close>. In both cases an
  exception raised by a success effect ends the step with that exception; when no effect
  raises, the result of a step whose assertions all pass is \<^verbatim>\<open>next\<close>.
\<close>

theorem assertions_short_circuit:
  "(s_success step = Some (pre @ t # post) \<and> (\<forall>a \<in> set pre. testPasses env response a)
      \<and> \<not> testPasses env response t \<longrightarrow>
      checkResults env response step =
        andThen (passingRun env pre) (\<lambda>_.
        andThen (consoleLog '': failed.'' [map_option JStr (a_description t)]) (\<lambda>_.
        ret (Some ''_failed''))))
   \<and> (s_success step = Some tests \<and> (\<forall>a \<in> set tests. testPasses env response a) \<longrightarrow>
        checkResults env response step = andThen (passingRun env tests) (\<lambda>_. ret (s_next step))
        \<and> (fst (passingRun env tests w) = Inr () \<longrightarrow>
              fst (checkResults env response step w) = Inr (s_next step)))"
proof (intro impI conjI)
  assume h: "s_success step = Some (pre @ t # post) \<and> (\<forall>a\<in>set pre. testPasses env response a)
      \<and> \<not> testPasses env response t"
  then show "checkResults env response step =
        andThen (passingRun env pre) (\<lambda>_.
        andThen (consoleLog '': failed.'' [map_option JStr (a_description t)]) (\<lambda>_.
        ret (Some ''_failed'')))"
    by (simp add: checkResults_def runTests_passing_prefix)
next
  assume h: "s_success step = Some tests \<and> (\<forall>a\<in>set tests. testPasses env response a)"
  then have p: "\<forall>a\<in>set tests. testPasses env response a" by simp
  from runTests_passing_prefix [OF p, of "s_next step" "[]"] h
  show "checkResults env response step = andThen (passingRun env tests) (\<lambda>_. ret (s_next step))"
    by (simp add: checkResults_def)
next
  assume h: "s_success step = Some tests \<and> (\<forall>a\<in>set tests. testPasses env response a)"
    and q: "fst (passingRun env tests w) = Inr ()"
  from h have p: "\<forall>a\<in>set tests. testPasses env response a" by simp
  from runTests_passing_prefix [OF p, of "s_next step" "[]"] h q
  show "fst (checkResults env response step w) = Inr (s_next step)"
    by (auto simp add: checkResults_def andThen_def ret_def split: prod.splits sum.splits)
qed

text \<open>
  A step of three assertions, of which the first passes and the second fails: the trace has the
  success of the first and the failure of the second, and nothing of the third. A step whose
  one assertion passes yields \<^verbatim>\<open>_end\<close>, its \<^verbatim>\<open>next\<close>.
\<close>

theorem assertions_short_circuit_witness:
  "testPasses buttonEnv (JArr [clickSubmit]) clickedSubmit
   \<and> \<not> testPasses buttonEnv (JArr [clickSubmit]) expectEmptyPlan
   \<and> checkResults buttonEnv (JArr [clickSubmit]) shortCircuitStep emptyWorld
       = (Inr (Some ''_failed''),
          \<lparr>messages = [],
           trace = [Console '': succeeded.'' [Some (JStr ''clicked submit'')],
                    Console ''No additional action taken on success'' [],
                    Console '': failed.'' [Some (JStr ''nothing to do'')]]\<rparr>)
   \<and> checkResults buttonEnv (JArr [clickSubmit]) passingStep emptyWorld
       = (Inr (Some ''_end''),
          \<lparr>messages = [],
           trace = [Console '': succeeded.'' [Some (JStr ''clicked submit'')],
                    Console ''No additional action taken on success'' []]\<rparr>)"
proof -
  have failing:
    "checkResults buttonEnv (JArr [clickSubmit]) shortCircuitStep =
       andThen (passingRun buttonEnv [clickedSubmit]) (\<lambda>_.
       andThen (consoleLog '': failed.'' [map_option JStr (a_description expectEmptyPlan)]) (\<lambda>_.
       ret (Some ''_failed'')))"
    using assertions_short_circuit
            [of shortCircuitStep "[clickedSubmit]" expectEmptyPlan "[typeAge]" buttonEnv
                "JArr [clickSubmit]" "[clickedSubmit, expectEmptyPlan, typeAge]" emptyWorld]
          testPasses_clickedSubmit not_testPasses_expectEmptyPlan
    by (simp add: shortCircuitStep_def)
  have passing:
    "checkResults buttonEnv (JArr [clickSubmit]) passingStep =
       andThen (passingRun buttonEnv [clickedSubmit]) (\<lambda>_. ret (Some ''_end''))"
    using assertions_short_circuit
            [of passingStep "[]" clickedSubmit "[]" buttonEnv "JArr [clickSubmit]" "[clickedSubmit]"
                emptyWorld]
          testPasses_clickedSubmit
    by (simp add: passingStep_def)
  have first: "testPasses buttonEnv (JArr [clickSubmit]) clickedSubmit"
    by (rule testPasses_clickedSubmit)
  have second: "\<not> testPasses buttonEnv (JArr [clickSubmit]) expectEmptyPlan"
    by (rule not_testPasses_expectEmptyPlan)
  have results:
    "checkResults buttonEnv (JArr [clickSubmit]) shortCircuitStep emptyWorld
       = (Inr (Some ''_failed''),
          \<lparr>messages = [],
           trace = [Console '': succeeded.'' [Some (JStr ''clicked submit'')],
                    Console ''No additional action taken on success'' [],
                    Console '': failed.'' [Some (JStr ''nothing to do'')]]\<rparr>)
     \<and> checkResults buttonEnv (JArr [clickSubmit]) passingStep emptyWorld
       = (Inr (Some ''_end''),
          \<lparr>messages = [],
           trace = [Console '': succeeded.'' [Some (JStr ''clicked submit'')],
                    Console ''No additional action taken on success'' []]\<rparr>)"
    by (simp add: failing passing andThen_def consoleLog_def ret_def emit_def successEffect_absent
        emptyWorld_def expectEmptyPlan_def clickedSubmit_def)
  from first second results show ?thesis by simp
qed

text \<open>
  C3 as stated fails: the one assertion of this step passes, and its success effect, typing a
  number for which the scenario gives no value, throws a type error at \<^verbatim>\<open>value.toString()\<close>;
  the step ends with the exception, not with its \<^verbatim>\<open>next\<close>.
\<close>

theorem raising_effect_counterexample:
  "s_success typeAgeStep = Some [typeAge]
   \<and> testPasses inputEnv (JArr []) typeAge
   \<and> fst (checkResults inputEnv (JArr []) typeAgeStep emptyWorld) = Inl TypeError
   \<and> fst (checkResults inputEnv (JArr []) typeAgeStep emptyWorld) \<noteq> Inr (s_next typeAgeStep)"
  by (simp add: testPasses_def evalCondition_def typeAge_def typeAgeStep_def checkResults_def
      andThen_def consoleLog_def successEffect_def waitFor_def inputEnv_def scriptedEnv_def emit_def
      emptyWorld_def inputValue_def throw_def)


subsection \<open>Accessibility projector\<close>

text \<open>
  C4, as amended. The output for a tree is the concatenation, in pre-order, of the lines of its
  nodes that have a role that is neither \<^verbatim>\<open>null\<close> nor empty; the line of a node is two spaces
  for each level of its depth, its phrase, its description if any, and a newline. When no role,
  name or description in the tree contains a newline, the output has as many newlines as the
  tree has such nodes. A heading without a level reads as level 1. A node without such a role
  adds no line of its own, and the output is that of its children, one level deeper.
\<close>

theorem projector_lines_preorder:
  "generateScreenReaderOutput n depth = concat (map lineOf (filter hasRole (preorder n depth)))
   \<and> ((\<forall>p \<in> set (preorder n depth). plainTexts p) \<longrightarrow>
        newlines (generateScreenReaderOutput n depth) = length (filter hasRole (preorder n depth)))
   \<and> (node_role n = Some ''heading'' \<and> node_level n = None \<longrightarrow>
        lineOf (n, depth) =
          replicate (2 * depth) (CHR '' '') @ ''Heading level 1, '' @ orElse (node_name n) ''Unnamed heading''
            @ (if truthy (node_description n) then '', '' @ the (node_description n) else [])
            @ [CHR 0x0A])
   \<and> (\<not> hasRole (n, depth) \<longrightarrow>
        generateScreenReaderOutput n depth
          = concat (map lineOf (filter hasRole (preorderList (node_children n) (Suc depth)))))"
proof (intro conjI impI)
  show "generateScreenReaderOutput n depth = concat (map lineOf (filter hasRole (preorder n depth)))"
    by (rule output_preorder(1))
next
  assume "\<forall>p \<in> set (preorder n depth). plainTexts p"
  then have "newlines (concat (map lineOf (filter hasRole (preorder n depth))))
               = length (filter hasRole (preorder n depth))"
    by (rule newlines_lines)
  then show "newlines (generateScreenReaderOutput n depth) = length (filter hasRole (preorder n depth))"
    by (simp only: output_preorder(1))
next
  assume "node_role n = Some ''heading'' \<and> node_level n = None"
  then show "lineOf (n, depth) =
          replicate (2 * depth) (CHR '' '') @ ''Heading level 1, '' @ orElse (node_name n) ''Unnamed heading''
            @ (if truthy (node_description n) then '', '' @ the (node_description n) else [])
            @ [CHR 0x0A]"
    by (simp add: lineOf_def phrase_def levelOr1_def)
next
  assume "\<not> hasRole (n, depth)"
  then show "generateScreenReaderOutput n depth
          = concat (map lineOf (filter hasRole (preorderList (node_children n) (Suc depth))))"
    by (cases n) (simp add: output_preorder(2) ownOutput_lineOf)
qed

text \<open>
  A button with two children, a heading without a level and a node without a role that has a
  link below it: three lines, the link indented by four spaces.
\<close>

theorem projector_lines_preorder_witness:
  "node_role titleHeading = Some ''heading'' \<and> node_level titleHeading = None
   \<and> lineOf (titleHeading, 1) = ''  Heading level 1, Title'' @ [CHR 0x0A]
   \<and> \<not> hasRole (unnamedGroup, 1)
   \<and> generateScreenReaderOutput unnamedGroup 1 = ''    Link, Home'' @ [CHR 0x0A]
   \<and> generateScreenReaderOutput menuTree 0
       = ''Button, Menu'' @ [CHR 0x0A] @ ''  Heading level 1, Title'' @ [CHR 0x0A]
         @ ''    Link, Home'' @ [CHR 0x0A]
   \<and> list_all plainTexts (preorder menuTree 0)
   \<and> newlines (generateScreenReaderOutput menuTree 0) = 3"
proof -
  have plain: "list_all plainTexts (preorder menuTree 0)"
    by (simp add: menuTree_def titleHeading_def unnamedGroup_def plainTexts_def oneLine_def)
  have three: "length (filter hasRole (preorder menuTree 0)) = 3"
    by (simp add: menuTree_def titleHeading_def unnamedGroup_def hasRole_def)
  have count: "newlines (generateScreenReaderOutput menuTree 0) = 3"
  proof -
    from plain have "\<forall>p \<in> set (preorder menuTree 0). plainTexts p"
      by (simp add: list_all_iff)
    with projector_lines_preorder [of menuTree 0]
    have "newlines (generateScreenReaderOutput menuTree 0)
            = length (filter hasRole (preorder menuTree 0))"
      by blast
    with three show ?thesis by simp
  qed
  have rest:
    "node_role titleHeading = Some ''heading'' \<and> node_level titleHeading = None
     \<and> lineOf (titleHeading, 1) = ''  Heading level 1, Title'' @ [CHR 0x0A]
     \<and> \<not> hasRole (unnamedGroup, 1)
     \<and> generateScreenReaderOutput unnamedGroup 1 = ''    Link, Home'' @ [CHR 0x0A]
     \<and> generateScreenReaderOutput menuTree 0
         = ''Button, Menu'' @ [CHR 0x0A] @ ''  Heading level 1, Title'' @ [CHR 0x0A]
           @ ''    Link, Home'' @ [CHR 0x0A]"
    using projector_lines_preorder [of titleHeading 1] projector_lines_preorder [of unnamedGroup 1]
          projector_lines_preorder [of menuTree 0]
    by (simp add: titleHeading_def unnamedGroup_def menuTree_def hasRole_def lineOf_def phrase_def
        orElse_def truthy_def numeral_2_eq_2)
  from plain count rest show ?thesis by simp
qed

text \<open>
  C4 as stated fails: a node whose role is the empty string has a role that is not \<^verbatim>\<open>null\<close>,
  and the output has no line for it.
\<close>

theorem empty_role_counterexample:
  "hasNonNullRole (emptyRoleNode, 0)
   \<and> length (filter hasNonNullRole (preorder emptyRoleNode 0)) = 1
   \<and> generateScreenReaderOutput emptyRoleNode 0 = []
   \<and> generateScreenReaderOutput emptyRoleNode 0
       \<noteq> concat (map lineOf (filter hasNonNullRole (preorder emptyRoleNode 0)))"
  by (simp add: emptyRoleNode_def hasNonNullRole_def ownOutput_def truthy_def lineOf_def)


subsection \<open>Element resolver\<close>





subsection \<open>Conditions on the whole response\<close>

text \<open>
  C6. A \<^verbatim>\<open>responseIsEqual\<close> assertion passes exactly when its test value is the string that
  \<^verbatim>\<open>JSON.stringify\<close> gives for the plan; a \<^verbatim>\<open>responseIncludes\<close> assertion passes exactly when
  that string contains the test value (as a string) as a contiguous part; an assertion without a
  condition passes.
\<close>

theorem response_conditions:
  "(a_condition t = Some ''responseIsEqual'' \<longrightarrow>
      (testPasses env plan t \<longleftrightarrow> a_testValue t = Some (JStr (jsonStringify env plan))))
   \<and> (a_condition t = Some ''responseIncludes'' \<longrightarrow>
      (testPasses env plan t \<longleftrightarrow> sublist (toStringU (a_testValue t)) (jsonStringify env plan)))
   \<and> (a_condition t = None \<longrightarrow> testPasses env plan t)"
  by (simp add: testPasses_def evalCondition_def strIncludes_sublist strictEq_JStr)

text \<open>
  On the plan that clicks Submit: equality with its JSON text passes, equality with the text of
  the empty plan fails, inclusion of the word Submit passes, and no condition passes.
\<close>

theorem response_conditions_witness:
  "testPasses buttonEnv (JArr [clickSubmit]) exactPlan
   \<and> \<not> testPasses buttonEnv (JArr [clickSubmit]) expectEmptyPlan
   \<and> testPasses buttonEnv (JArr [clickSubmit]) mentionsSubmit
   \<and> testPasses buttonEnv (JArr [clickSubmit]) unconditional"
  using response_conditions [of exactPlan buttonEnv "JArr [clickSubmit]"]
        response_conditions [of expectEmptyPlan buttonEnv "JArr [clickSubmit]"]
        response_conditions [of mentionsSubmit buttonEnv "JArr [clickSubmit]"]
        response_conditions [of unconditional buttonEnv "JArr [clickSubmit]"]
        clickSubmitText_includes clickSubmitText_not_empty
  by (simp add: exactPlan_def expectEmptyPlan_def mentionsSubmit_def unconditional_def
      stringify_buttonEnv toStringU_def strIncludes_sublist [symmetric])


subsection \<open>Scenario state machine\<close>




subsection \<open>Conversation client\<close>

text \<open>
  C8. After \<^verbatim>\<open>setup\<close> the history is the one system message, whatever it was before; the
  priming exchange sends that history, \<^verbatim>\<open>setup\<close> returns only if the exchange succeeds, and
  the reply is not appended. When the remote model answers, \<^verbatim>\<open>send\<close> appends the user message,
  sends the whole history including it, appends the reply, and returns the content of the
  reply; every \<^verbatim>\<open>send\<close> that returns has made the history longer by two.
\<close>

theorem client_history:
  "messages (snd (clientSetup env p w)) = [systemMessage p]
   \<and> trace (snd (clientSetup env p w)) = trace w @ [ChatRequest [systemMessage p]]
   \<and> (fst (clientSetup env p w) = Inr () \<longleftrightarrow> chat env (trace w) [systemMessage p] \<noteq> None)
   \<and> (chat env (trace w) (messages w @ [userMessage m]) = Some r \<longrightarrow>
        clientSend env m w =
          (Inr (msg_content r),
           w\<lparr>messages := messages w @ [userMessage m, r],
             trace := trace w @ [ChatRequest (messages w @ [userMessage m])]\<rparr>))
   \<and> (fst (clientSend env m w) = Inr x \<longrightarrow>
        length (messages (snd (clientSend env m w))) = length (messages w) + 2)"
  by (auto simp add: clientSetup_eq clientSend_eq split: option.splits)

text \<open>
  A message sent on a new client leaves two messages in the history, and \<^verbatim>\<open>setup\<close> after it
  leaves the system message alone.
\<close>

theorem client_history_witness:
  "chat retryEnv [] [userMessage ''hello'']
     = Some \<lparr>msg_role = ''assistant'', msg_content = ''Sure, I would click Submit.''\<rparr>
   \<and> clientSend retryEnv ''hello'' emptyWorld =
       (Inr ''Sure, I would click Submit.'',
        \<lparr>messages = [userMessage ''hello'',
                      \<lparr>msg_role = ''assistant'', msg_content = ''Sure, I would click Submit.''\<rparr>],
         trace = [ChatRequest [userMessage ''hello'']]\<rparr>)
   \<and> messages (snd (clientSetup retryEnv ''be brief'' (snd (clientSend retryEnv ''hello'' emptyWorld))))
       = [systemMessage ''be brief'']"
  using client_history [of retryEnv "''be brief''" "snd (clientSend retryEnv ''hello'' emptyWorld)"
          "''hello''" "\<lparr>msg_role = ''assistant'', msg_content = ''Sure, I would click Submit.''\<rparr>"
          "''Sure, I would click Submit.''"]
        client_history [of retryEnv "''be brief''" emptyWorld
          "''hello''" "\<lparr>msg_role = ''assistant'', msg_content = ''Sure, I would click Submit.''\<rparr>"
          "''Sure, I would click Submit.''"]
  by (simp add: retryEnv_def scriptedEnv_def emptyWorld_def)


subsection \<open>A pattern without keys\<close>

text \<open>
  C9. An \<^verbatim>\<open>actionTaken\<close> assertion whose pattern has no keys passes exactly when the plan has
  at least one action.
\<close>

theorem empty_pattern_needs_an_action:
  "a_condition t = Some ''actionTaken'' \<and> forInKeys (a_testValue t) = []
   \<longrightarrow> (testPasses env (JArr plan) t \<longleftrightarrow> plan \<noteq> [])"
  by (cases plan) (simp_all add: testPasses_def evalCondition_def checkAction_def)

text \<open>The pattern \<^verbatim>\<open>{}\<close> passes on the plan of one click and fails on the empty plan.\<close>

theorem empty_pattern_needs_an_action_witness:
  "a_condition anyAction = Some ''actionTaken'' \<and> forInKeys (a_testValue anyAction) = []
   \<and> testPasses buttonEnv (JArr [clickSubmit]) anyAction
   \<and> \<not> testPasses buttonEnv (JArr []) anyAction"
  using empty_pattern_needs_an_action [of anyAction buttonEnv "[clickSubmit]"]
        empty_pattern_needs_an_action [of anyAction buttonEnv "[]"]
  by (simp add: anyAction_def)


subsection \<open>The two drivers on a failing step\<close>

text \<open>
  C10. The model answers with the plan that clicks Submit, and the step expects the empty
  plan. Both drivers yield \<^verbatim>\<open>_failed\<close>. After the two requests to the model, the
  single-assertion driver only logs the failure: it touches the page for no action of the plan.
  The multi-assertion driver resolves the action and clicks the button before it evaluates the
  assertion.
\<close>

theorem drivers_differ_on_failing_step:
  "fst (runScenarioS buttonEnv [] stepS ''_start'' emptyWorld) = Inr (Some ''_failed'')
   \<and> drop 2 (trace (snd (runScenarioS buttonEnv [] stepS ''_start'' emptyWorld)))
       = [Console ''Step failed.'' []]
   \<and> fst (runScenario buttonEnv [] stepP emptyWorld) = Inr (Some ''_failed'')
   \<and> drop 2 (trace (snd (runScenario buttonEnv [] stepP emptyWorld)))
       = [Console ''Performing actions on the page:'' [],
          EvaluateHandle clickSubmit,
          Console ''Clicking on element: , '' [Some (JStr ''Button''), Some (JStr ''Submit'')],
          Click submitButton,
          Console ''Test results:'' [],
          Console '': failed.'' [Some (JStr ''nothing to do'')]]"
proof -
  obtain w1 where r: "requestPlan buttonEnv [] ''click submit'' emptyWorld = (Inr (JArr [clickSubmit]), w1)"
    and t: "trace w1 = [ChatRequest [systemMessage setupPrompt],
                  ChatRequest [systemMessage setupPrompt, userMessage (firstPrompt [] ''click submit'')]]"
    using requestPlan_buttonEnv [of "[]" "''click submit''" emptyWorld]
    by (cases "requestPlan buttonEnv [] ''click submit'' emptyWorld") (simp add: emptyWorld_def)
  have s: "runScenarioS buttonEnv [] stepS ''_start'' emptyWorld
             = (Inr (Some ''_failed''), emit (Console ''Step failed.'' []) w1)"
    using r clickSubmitText_not_empty
    by (simp add: runScenarioS_def stepS_def toStringU_def andThen_def judgeAndActS_def
        expectEmptyPlan_def stringify_buttonEnv consoleLog_def ret_def)
  have p: "runScenario buttonEnv [] stepP emptyWorld
             = (Inr (Some ''_failed''),
                w1\<lparr>trace := trace w1 @ [Console ''Performing actions on the page:'' [],
                  EvaluateHandle clickSubmit,
                  Console ''Clicking on element: , '' [Some (JStr ''Button''), Some (JStr ''Submit'')],
                  Click submitButton,
                  Console ''Test results:'' [],
                  Console '': failed.'' [map_option JStr (a_description expectEmptyPlan)]]\<rparr>)"
    using r not_testPasses_expectEmptyPlan
    by (simp add: runScenario_def stepP_def toStringU_def andThen_def forEachAction_buttonEnv
        checkResults_def consoleLog_def emit_def ret_def)
  show ?thesis
    by (simp add: s p t emit_def expectEmptyPlan_def)
qed

end
